theory Spec2Isabelle
  imports Main "HOL-Library.Sublist"
begin

section \<open>Legislative Acts Analyzer: the state model of \<open>src/frontend/app/page.tsx\<close>\<close>

text \<open>
  The page is one React component with four pieces of state and six event handlers.
  Each handler is embedded as a function from the state at the time of the event to the
  state after it, together with the effects it has outside the state (console output,
  an alert, a download). The one asynchronous handler, \<open>handleAnalyze\<close>, is embedded in
  two parts, cut at its \<open>await\<close>. What a handler reads from the browser (the clock, the
  locale rendering of the date, whether reading the file is rejected) is an explicit
  argument.

  Strings are \<^typ>\<open>string\<close>: the text of a file is the list of the characters of its
  UTF-8 form, in which the space and the line feed occur exactly where the decoded text
  has them.
\<close>

subsection \<open>JavaScript built-ins used by the handlers\<close>

text \<open>
  \<open>Number.prototype.toString\<close> on an integer: the decimal digits, most significant
  first, with a leading minus sign for a negative number. The numbers converted by the
  page are array lengths and \<open>Date.now()\<close>, all integers far below the magnitude at
  which JavaScript switches to exponent notation.
\<close>

definition digit :: "nat \<Rightarrow> char" where
  "digit d = char_of (48 + d)"

function digits :: "nat \<Rightarrow> string" where
  "digits n = (if n < 10 then [digit n] else digits (n div 10) @ [digit (n mod 10)])"
  by pat_completeness auto
termination
  by (relation "measure (\<lambda>n. n)") auto

declare digits.simps [simp del]

definition toString :: "int \<Rightarrow> string" where
  "toString i = (if i < 0 then CHR ''-'' # digits (nat (- i)) else digits (nat i))"

text \<open>
  \<open>String.prototype.split(separator)\<close> with a string separator and no limit. With an
  empty separator the string is cut into its single characters. Otherwise the string is
  scanned from the left; at each occurrence of the separator the segment collected so far
  is emitted and the scan continues behind the occurrence; the rest of the string is the
  last segment, so the result of a non-empty separator always has at least one segment.
\<close>

function split_from :: "string \<Rightarrow> string \<Rightarrow> string \<Rightarrow> string list" where
  "split_from sep cur [] = [cur]"
| "split_from sep cur (c # cs) =
     (if sep \<noteq> [] \<and> prefix sep (c # cs)
      then cur # split_from sep [] (drop (length sep) (c # cs))
      else split_from sep (cur @ [c]) cs)"
  by pat_completeness auto
termination
  by (relation "measure (\<lambda>(sep, cur, rest). length rest)") auto

definition split :: "string \<Rightarrow> string \<Rightarrow> string list" where
  "split S sep = (if sep = [] then map (\<lambda>c. [c]) S else split_from sep [] S)"

subsection \<open>Data model\<close>

text \<open>The interface \<open>Analysis\<close> (lines 11 to 17).\<close>

record Analysis =
  id' :: string
  filename :: string
  date :: string
  content :: string
  originalText :: string

text \<open>
  A browser \<open>File\<close>: its name and the text that \<open>text()\<close> resolves to when the read
  succeeds. A \<open>File\<close> is a snapshot, so every successful read of one file gives the same
  text; whether a particular read is rejected is decided by the environment.
\<close>

record File =
  name :: string
  text_content :: string

datatype js_error = Rejected string

text \<open>The four \<open>useState\<close> cells (lines 20 to 23) and their initial values.\<close>

record state =
  uploadedFile :: "File option"
  analyses :: "Analysis list"
  selectedAnalysis :: "Analysis option"
  isAnalyzing :: bool

definition initial_state :: state where
  "initial_state =
     \<lparr>uploadedFile = None, analyses = [], selectedAnalysis = None, isAnalyzing = False\<rparr>"

text \<open>
  What one run of \<open>handleAnalyze\<close> reads from the browser: \<open>Date.now()\<close>,
  \<open>new Date().toLocaleString()\<close>, and the rejection of \<open>uploadedFile.text()\<close>, if any.
\<close>

record env =
  now :: int
  localeString :: string
  readError :: "js_error option"

record blob =
  blob_parts :: string
  blob_type :: string

datatype effect =
    ConsoleError string js_error
  | Alert string
  | Download string blob

subsection \<open>Event handlers\<close>

text \<open>\<open>handleFileUpload\<close> (lines 25 to 30); the argument is \<open>e.target.files?.[0]\<close>.\<close>

definition handleFileUpload :: "File option \<Rightarrow> state \<Rightarrow> state" where
  "handleFileUpload file s =
     (case file of
        None \<Rightarrow> s
      | Some f \<Rightarrow> s\<lparr>uploadedFile := Some f\<rparr>)"

text \<open>The template literal of line 51.\<close>

definition mockAnalysis :: "string \<Rightarrow> string \<Rightarrow> string" where
  "mockAnalysis fname fileContent =
     ''Analysis of '' @ fname
     @ '':\<newline>\<newline>This legislative act contains ''
     @ toString (int (length (split fileContent '' '')))
     @ '' words and ''
     @ toString (int (length (split fileContent ''\<newline>'')))
     @ '' lines.\<newline>\<newline>Key sections identified:\<newline>- Preamble\<newline>- Main provisions\<newline>- Enforcement clauses\<newline>\<newline>Summary: This document outlines legislative provisions...''"

text \<open>The record built in lines 53 to 59.\<close>

definition newAnalysis :: "env \<Rightarrow> File \<Rightarrow> Analysis" where
  "newAnalysis e f =
     \<lparr>id' = toString (now e),
      filename = name f,
      date = localeString e,
      content = mockAnalysis (name f) (text_content f),
      originalText = text_content f\<rparr>"

text \<open>
  \<open>handleAnalyze\<close> (lines 32 to 68) is an \<open>async\<close> function. It is created by a render
  of the component and reads \<open>uploadedFile\<close> and \<open>analyses\<close> as that render had them;
  the setters write the current state. The part before the \<open>await\<close> of line 39 runs
  synchronously with the click: the handler returns at once when the render held no file, and
  sets the in-progress flag otherwise. Both parts take the state of the render that
  created the handler and the current state.
\<close>

definition handleAnalyze_before_await :: "state \<Rightarrow> state \<Rightarrow> state" where
  "handleAnalyze_before_await rendered s =
     (case uploadedFile rendered of
        None \<Rightarrow> s
      | Some f \<Rightarrow> s\<lparr>isAnalyzing := True\<rparr>)"

text \<open>
  The part after the \<open>await\<close> runs when the read has settled; other handlers may have run
  in between. A rejection is caught and logged. A successful read builds the record, sets
  the history to the record followed by the history of the render that created the
  handler (line 61), and selects the record. The \<open>finally\<close> block clears the flag on both
  paths. Nothing is pending when the render held no file.
\<close>

definition handleAnalyze_after_await :: "env \<Rightarrow> state \<Rightarrow> state \<Rightarrow> state \<times> effect list" where
  "handleAnalyze_after_await e rendered s =
     (case uploadedFile rendered of
        None \<Rightarrow> (s, [])
      | Some f \<Rightarrow>
          (case readError e of
             Some err \<Rightarrow>
               (s\<lparr>isAnalyzing := False\<rparr>, [ConsoleError ''Analysis failed:'' err])
           | None \<Rightarrow>
               (s\<lparr>analyses := newAnalysis e f # analyses rendered,
                  selectedAnalysis := Some (newAnalysis e f),
                  isAnalyzing := False\<rparr>, [])))"

text \<open>
  A run of \<open>handleAnalyze\<close> from an up-to-date render during which no other handler runs:
  the second part continues from the state the first part leaves.
\<close>

definition handleAnalyze :: "env \<Rightarrow> state \<Rightarrow> state \<times> effect list" where
  "handleAnalyze e s = handleAnalyze_after_await e s (handleAnalyze_before_await s s)"

text \<open>\<open>handleRemove\<close> (lines 70 to 72).\<close>

definition handleRemove :: "state \<Rightarrow> state" where
  "handleRemove s = s\<lparr>uploadedFile := None\<rparr>"

text \<open>\<open>handleExportPDF\<close> (lines 74 to 78).\<close>

definition handleExportPDF :: "state \<Rightarrow> effect list" where
  "handleExportPDF s =
     (case selectedAnalysis s of
        None \<Rightarrow> []
      | Some a \<Rightarrow>
          [Alert ''PDF export functionality - integrate with jsPDF or similar library''])"

text \<open>
  \<open>handleExportTXT\<close> (lines 80 to 89): a blob of the selected record's content is
  offered for download through a temporary anchor element.
\<close>

definition handleExportTXT :: "state \<Rightarrow> effect list" where
  "handleExportTXT s =
     (case selectedAnalysis s of
        None \<Rightarrow> []
      | Some a \<Rightarrow>
          [Download (filename a @ ''_analysis.txt'')
             \<lparr>blob_parts = content a, blob_type = ''text/plain''\<rparr>])"

text \<open>
  The click handler of a history entry (line 224) selects that entry. The page offers one
  button per record of the history, so the entry is given by its position.
\<close>

definition selectEntry :: "nat \<Rightarrow> state \<Rightarrow> state" where
  "selectEntry i s =
     (if i < length (analyses s) then s\<lparr>selectedAnalysis := Some (analyses s ! i)\<rparr> else s)"

text \<open>
  The file input, with \<open>handleFileUpload\<close> as its change handler, is rendered in the
  branch of line 110 in which no file is held; the Analyze and Remove buttons are rendered
  in the other branch.
\<close>

definition upload_offered :: "state \<Rightarrow> bool" where
  "upload_offered s \<longleftrightarrow> uploadedFile s = None"

subsection \<open>Notions used to state the properties\<close>

text \<open>The number written by a string of decimal digits.\<close>

fun decimal_value :: "string \<Rightarrow> nat" where
  "decimal_value [] = 0"
| "decimal_value (c # cs) = (of_char c - 48) * 10 ^ length cs + decimal_value cs"

text \<open>
  The summary text that reports \<open>w\<close> words and \<open>l\<close> lines for a file called
  \<open>fname\<close>: the fixed template with the two counts filled in.
\<close>

definition summary_reporting :: "string \<Rightarrow> nat \<Rightarrow> nat \<Rightarrow> string" where
  "summary_reporting fname w l =
     ''Analysis of '' @ fname
     @ '':\<newline>\<newline>This legislative act contains ''
     @ toString (int w)
     @ '' words and ''
     @ toString (int l)
     @ '' lines.\<newline>\<newline>Key sections identified:\<newline>- Preamble\<newline>- Main provisions\<newline>- Enforcement clauses\<newline>\<newline>Summary: This document outlines legislative provisions...''"

text \<open>
  The specification's wording of the word count, "split on whitespace": the tokens of a
  text are its maximal runs of characters that are not whitespace (space, tab, line feed,
  vertical tab, form feed, carriage return).
\<close>

definition is_whitespace :: "char \<Rightarrow> bool" where
  "is_whitespace c \<longleftrightarrow>
     c \<in> set [CHR '' '', CHR 0x09, CHR ''\<newline>'', CHR 0x0B, CHR 0x0C, CHR 0x0D]"

fun whitespace_tokens_from :: "string \<Rightarrow> string \<Rightarrow> string list" where
  "whitespace_tokens_from cur [] = (if cur = [] then [] else [cur])"
| "whitespace_tokens_from cur (c # cs) =
     (if is_whitespace c
      then (if cur = [] then [] else [cur]) @ whitespace_tokens_from [] cs
      else whitespace_tokens_from (cur @ [c]) cs)"

definition whitespace_tokens :: "string \<Rightarrow> string list" where
  "whitespace_tokens c = whitespace_tokens_from [] c"

subsection \<open>Concrete inputs\<close>

definition holding :: "File \<Rightarrow> state" where
  "holding f = initial_state\<lparr>uploadedFile := Some f\<rparr>"

definition clock_env :: "int \<Rightarrow> env" where
  "clock_env t = \<lparr>now = t, localeString = ''11/2/2025, 9:00:00 AM'', readError = None\<rparr>"

definition rejecting_env :: env where
  "rejecting_env =
     \<lparr>now = 1762074000100, localeString = ''11/2/2025, 9:00:00 AM'',
      readError = Some (Rejected ''NotReadableError'')\<rparr>"

definition abc_file :: File where
  "abc_file = \<lparr>name = ''act.txt'', text_content = ''a b c''\<rparr>"

definition tab_file :: File where
  "tab_file = \<lparr>name = ''act.txt'', text_content = [CHR ''a'', CHR 0x09, CHR ''b'']\<rparr>"

definition empty_file :: File where
  "empty_file = \<lparr>name = ''empty.txt'', text_content = []\<rparr>"

text \<open>The state after one completed analysis of \<open>abc_file\<close>.\<close>

definition one_record :: state where
  "one_record = fst (handleAnalyze (clock_env 1762074000000) (holding abc_file))"

text \<open>
  Two clicks on Analyze handled by one render that holds \<open>abc_file\<close>, and the state when
  the read of the first run has settled.
\<close>

definition two_clicks :: state where
  "two_clicks =
     handleAnalyze_before_await (holding abc_file)
       (handleAnalyze_before_await (holding abc_file) (holding abc_file))"

definition first_settled :: state where
  "first_settled =
     fst (handleAnalyze_after_await (clock_env 1762074000000) (holding abc_file) two_clicks)"

section \<open>Properties of the built-ins\<close>

lemma of_char_digit: "d < 10 \<Longrightarrow> (of_char (digit d) :: nat) = 48 + d"
  by (simp add: digit_def)

lemma digits_small: "n < 10 \<Longrightarrow> digits n = [digit n]"
  by (simp add: digits.simps [of n])

lemma digits_step: "10 \<le> n \<Longrightarrow> digits n = digits (n div 10) @ [digit (n mod 10)]"
  by (simp add: digits.simps [of n])

lemma digit_chars:
  "digit 0 = CHR ''0''" "digit 1 = CHR ''1''" "digit 2 = CHR ''2''" "digit 3 = CHR ''3''"
  "digit 4 = CHR ''4''" "digit 5 = CHR ''5''" "digit 6 = CHR ''6''" "digit 7 = CHR ''7''"
  "digit 8 = CHR ''8''" "digit 9 = CHR ''9''" "digit (Suc 0) = CHR ''1''"
  by (simp_all add: digit_def char_of_eq_iff)

lemmas toString_eval = toString_def digits_small digits_step digit_chars

text \<open>Reading the digits of a number gives the number back, so \<open>digits\<close> is injective.\<close>

lemma decimal_value_append:
  "decimal_value (xs @ ys) = decimal_value xs * 10 ^ length ys + decimal_value ys"
  by (induction xs) (simp_all add: algebra_simps power_add)

lemma decimal_value_digits: "decimal_value (digits n) = n"
proof (induction n rule: digits.induct)
  case (1 n)
  show ?case
  proof (cases "n < 10")
    case True
    then show ?thesis by (simp add: digits_small of_char_digit)
  next
    case False
    with 1 have "decimal_value (digits (n div 10)) = n div 10" by simp
    with False show ?thesis
      by (simp add: digits_step decimal_value_append of_char_digit)
  qed
qed

lemma digits_inj: "digits m = digits n \<Longrightarrow> m = n"
  by (metis decimal_value_digits)

lemma digit_neq:
  assumes "d < 10"
  shows "digit d \<noteq> CHR ''-''" and "digit d \<noteq> CHR '' ''"
  using of_char_digit [OF assms] by auto

lemma digits_no_minus: "CHR ''-'' \<notin> set (digits n)"
proof (induction n rule: digits.induct)
  case (1 n)
  then show ?case
    by (cases "n < 10") (simp_all add: digits.simps [of n] digit_neq [symmetric])
qed

lemma digits_no_space: "CHR '' '' \<notin> set (digits n)"
proof (induction n rule: digits.induct)
  case (1 n)
  then show ?case
    by (cases "n < 10") (simp_all add: digits.simps [of n] digit_neq [symmetric])
qed

lemma toString_inj: "toString i = toString j \<Longrightarrow> i = j"
proof -
  assume eq: "toString i = toString j"
  have neg: "CHR ''-'' # digits a \<noteq> digits b" for a b
    using digits_no_minus [of b] by (metis list.set_intros(1))
  show ?thesis
  proof (cases "i < 0")
    case True
    show ?thesis
    proof (cases "j < 0")
      case True
      with \<open>i < 0\<close> eq have "nat (- i) = nat (- j)"
        by (simp add: toString_def digits_inj)
      with True \<open>i < 0\<close> show ?thesis by simp
    next
      case False
      with \<open>i < 0\<close> eq neg show ?thesis by (simp add: toString_def)
    qed
  next
    case False
    show ?thesis
    proof (cases "j < 0")
      case True
      with False eq neg [of "nat (- j)" "nat i"] show ?thesis by (simp add: toString_def)
    next
      case False
      with \<open>\<not> i < 0\<close> eq have "nat i = nat j"
        by (simp add: toString_def digits_inj)
      with False \<open>\<not> i < 0\<close> show ?thesis by simp
    qed
  qed
qed

lemma toString_no_space: "0 \<le> i \<Longrightarrow> CHR '' '' \<notin> set (toString i)"
  by (simp add: toString_def digits_no_space)

text \<open>
  Splitting at a one-character separator gives one segment more than the separator has
  occurrences, whatever the text.
\<close>

lemma length_split_from_char:
  "length (split_from [d] cur s) = Suc (count_list s d)"
  by (induction s arbitrary: cur) auto

lemma length_split_char: "length (split s [d]) = Suc (count_list s d)"
  by (simp add: split_def length_split_from_char)

section \<open>Properties of the summary text\<close>

lemma mockAnalysis_counts:
  "mockAnalysis fname c =
     summary_reporting fname (Suc (count_list c CHR '' '')) (Suc (count_list c CHR ''\<newline>''))"
  by (simp add: mockAnalysis_def summary_reporting_def length_split_char)

lemma separator_unique:
  "c \<notin> set a \<Longrightarrow> c \<notin> set b \<Longrightarrow> a @ c # x = b @ c # y \<Longrightarrow> a = b \<and> x = y"
proof (induction a arbitrary: b)
  case Nil
  then show ?case by (cases b) auto
next
  case (Cons d a)
  then show ?case by (cases b) auto
qed

text \<open>A summary text reports one word count and one line count only.\<close>

lemma summary_reporting_inj:
  assumes "summary_reporting fname w l = summary_reporting fname w' l'"
  shows "w = w' \<and> l = l'"
proof -
  let ?tail = "''lines.\<newline>\<newline>Key sections identified:\<newline>- Preamble\<newline>- Main provisions\<newline>- Enforcement clauses\<newline>\<newline>Summary: This document outlines legislative provisions...''"
  from assms have eq:
    "toString (int w) @ CHR '' '' # (''words and '' @ toString (int l) @ CHR '' '' # ?tail)
     = toString (int w') @ CHR '' '' # (''words and '' @ toString (int l') @ CHR '' '' # ?tail)"
    by (simp add: summary_reporting_def)
  have ns: "CHR '' '' \<notin> set (toString (int n))" for n
    by (rule toString_no_space) simp
  from separator_unique [OF ns ns eq]
  have w: "toString (int w) = toString (int w')"
    and rest: "toString (int l) @ CHR '' '' # ?tail = toString (int l') @ CHR '' '' # ?tail"
    by simp_all
  from separator_unique [OF ns ns rest] have l: "toString (int l) = toString (int l')"
    by simp
  from w l show ?thesis by (auto dest: toString_inj)
qed

section \<open>Properties of the handlers\<close>

text \<open>The uninterrupted run, written out.\<close>

lemma handleAnalyze_run:
  "handleAnalyze e s =
     (case uploadedFile s of
        None \<Rightarrow> (s, [])
      | Some f \<Rightarrow>
          (let s1 = s\<lparr>isAnalyzing := True\<rparr> in
           case readError e of
             Some err \<Rightarrow>
               (s1\<lparr>isAnalyzing := False\<rparr>, [ConsoleError ''Analysis failed:'' err])
           | None \<Rightarrow>
               (s1\<lparr>analyses := newAnalysis e f # analyses s,
                   selectedAnalysis := Some (newAnalysis e f),
                   isAnalyzing := False\<rparr>, [])))"
  by (simp add: handleAnalyze_def handleAnalyze_before_await_def
      handleAnalyze_after_await_def Let_def split: option.splits)

lemma handleAnalyze_success:
  "uploadedFile s = Some f \<Longrightarrow> readError e = None \<Longrightarrow>
   handleAnalyze e s =
     (s\<lparr>analyses := newAnalysis e f # analyses s,
        selectedAnalysis := Some (newAnalysis e f),
        isAnalyzing := False\<rparr>, [])"
  by (simp add: handleAnalyze_run Let_def)

lemma one_record_state:
  "one_record =
     \<lparr>uploadedFile = Some abc_file,
      analyses = [newAnalysis (clock_env 1762074000000) abc_file],
      selectedAnalysis = Some (newAnalysis (clock_env 1762074000000) abc_file),
      isAnalyzing = False\<rparr>"
  by (simp add: one_record_def handleAnalyze_run Let_def holding_def initial_state_def
      clock_env_def)

section \<open>The claims\<close>

subsection \<open>C1: what the summary counts\<close>

text \<open>
  Claim C1 says that the summary reports, as its word count, the number of
  whitespace-separated tokens of the file's text, and as its line count the number of
  segments between line breaks. The handler splits at the single space character only.
  For the text \<open>a<TAB>b\<close> the summary reports one word, while the text has two
  whitespace-separated tokens.
\<close>

theorem handleAnalyze_whitespace_counterexample:
  "map content (analyses (fst (handleAnalyze (clock_env 1762074000000) (holding tab_file))))
     = [summary_reporting ''act.txt'' 1 1]
   \<and> length (whitespace_tokens (text_content tab_file)) = 2
   \<and> map content (analyses (fst (handleAnalyze (clock_env 1762074000000) (holding tab_file))))
     \<noteq> [summary_reporting (name tab_file)
           (length (whitespace_tokens (text_content tab_file)))
           (length (split (text_content tab_file) ''\<newline>''))]"
  by (simp add: handleAnalyze_run Let_def newAnalysis_def mockAnalysis_counts holding_def
      initial_state_def clock_env_def tab_file_def whitespace_tokens_def is_whitespace_def
      length_split_char summary_reporting_def toString_eval)

text \<open>
  Claim C1 as amended: for every held file whose text is \<open>c\<close>, a run of \<open>handleAnalyze\<close>
  whose read succeeds selects a new record whose summary reports, as the word count, the
  number of segments of \<open>c\<close> between single space characters, which is one more than the
  number of spaces in \<open>c\<close>, and as the line count the number of segments of \<open>c\<close> between
  line feeds, which is one more than the number of line feeds in \<open>c\<close>.
\<close>

theorem handleAnalyze_counts:
  assumes "uploadedFile s = Some f" and "readError e = None"
  shows "selectedAnalysis (fst (handleAnalyze e s)) = Some (newAnalysis e f)
    \<and> analyses (fst (handleAnalyze e s)) = newAnalysis e f # analyses s
    \<and> content (newAnalysis e f) =
        summary_reporting (name f)
          (length (split (text_content f) '' ''))
          (length (split (text_content f) ''\<newline>''))
    \<and> length (split (text_content f) '' '') = Suc (count_list (text_content f) CHR '' '')
    \<and> length (split (text_content f) ''\<newline>'')
        = Suc (count_list (text_content f) CHR ''\<newline>'')"
proof -
  from assms have "fst (handleAnalyze e s) =
      s\<lparr>analyses := newAnalysis e f # analyses s,
        selectedAnalysis := Some (newAnalysis e f), isAnalyzing := False\<rparr>"
    by (simp add: handleAnalyze_success)
  moreover have "content (newAnalysis e f) =
      summary_reporting (name f)
        (length (split (text_content f) '' ''))
        (length (split (text_content f) ''\<newline>''))"
    by (simp add: newAnalysis_def mockAnalysis_def summary_reporting_def)
  ultimately show ?thesis by (simp add: length_split_char)
qed

theorem handleAnalyze_counts_witness:
  "uploadedFile (holding tab_file) = Some tab_file
   \<and> readError (clock_env 1762074000000) = None
   \<and> content (newAnalysis (clock_env 1762074000000) tab_file)
       = summary_reporting ''act.txt'' 1 1
   \<and> selectedAnalysis (fst (handleAnalyze (clock_env 1762074000000) (holding tab_file)))
       = Some (newAnalysis (clock_env 1762074000000) tab_file)"
proof -
  have held: "uploadedFile (holding tab_file) = Some tab_file"
    by (simp add: holding_def)
  have ok: "readError (clock_env 1762074000000) = None"
    by (simp add: clock_env_def)
  from handleAnalyze_counts [OF held ok] held ok show ?thesis
    by (simp add: tab_file_def)
qed

subsection \<open>C2: a read that fails\<close>

text \<open>
  Claim C2: when the read of the held file's content fails during \<open>handleAnalyze\<close>, the
  error is caught and logged, and the history, the selected record and the held file are
  left as they were; only the in-progress flag is cleared.
\<close>

theorem handleAnalyze_read_failure:
  assumes "uploadedFile s = Some f" and "readError e = Some err"
  shows "handleAnalyze e s = (s\<lparr>isAnalyzing := False\<rparr>, [ConsoleError ''Analysis failed:'' err])
    \<and> analyses (fst (handleAnalyze e s)) = analyses s
    \<and> selectedAnalysis (fst (handleAnalyze e s)) = selectedAnalysis s
    \<and> uploadedFile (fst (handleAnalyze e s)) = uploadedFile s
    \<and> isAnalyzing (fst (handleAnalyze e s)) = False"
  using assms by (simp add: handleAnalyze_run Let_def)

theorem handleAnalyze_read_failure_witness:
  "uploadedFile (holding abc_file) = Some abc_file
   \<and> readError rejecting_env = Some (Rejected ''NotReadableError'')
   \<and> handleAnalyze rejecting_env (holding abc_file)
       = (holding abc_file, [ConsoleError ''Analysis failed:'' (Rejected ''NotReadableError'')])"
proof -
  have held: "uploadedFile (holding abc_file) = Some abc_file"
    by (simp add: holding_def)
  have rej: "readError rejecting_env = Some (Rejected ''NotReadableError'')"
    by (simp add: rejecting_env_def)
  from handleAnalyze_read_failure [OF held rej] held rej show ?thesis
    by (simp add: holding_def initial_state_def)
qed

subsection \<open>C3: one record in front per run\<close>

text \<open>
  Claim C3 says that every successful run of \<open>handleAnalyze\<close> with a held file puts
  exactly one new record in front of the history, which gets one longer and keeps the
  records it had. The run writes the new record followed by the history of the render
  that created the handler, not by the history at the time of the write. When Analyze is
  clicked twice on one render, both reads succeed, and the first run has put its record in
  the history, the second run replaces that record: the history stays at one record.
\<close>

theorem handleAnalyze_overlap_counterexample:
  "uploadedFile (holding abc_file) = Some abc_file
   \<and> readError (clock_env 1762074000250) = None
   \<and> analyses first_settled = [newAnalysis (clock_env 1762074000000) abc_file]
   \<and> analyses (fst (handleAnalyze_after_await (clock_env 1762074000250) (holding abc_file)
         first_settled))
       = [newAnalysis (clock_env 1762074000250) abc_file]
   \<and> length (analyses (fst (handleAnalyze_after_await (clock_env 1762074000250)
         (holding abc_file) first_settled)))
       = length (analyses first_settled)
   \<and> tl (analyses (fst (handleAnalyze_after_await (clock_env 1762074000250)
         (holding abc_file) first_settled)))
       \<noteq> analyses first_settled"
  by (simp add: first_settled_def two_clicks_def handleAnalyze_after_await_def
      handleAnalyze_before_await_def holding_def initial_state_def clock_env_def)

text \<open>
  Claim C3 as amended: every successful run of \<open>handleAnalyze\<close> with a held file during
  which no other run has written the history (when its read settles, the history is the
  one of the render that created the handler) puts exactly one new record in front of the
  history: the history is one longer, and the records it had follow the new one,
  unchanged and in their order. This holds in particular for a run from an up-to-date
  render during which no other handler runs.
\<close>

theorem handleAnalyze_prepends:
  assumes "uploadedFile rendered = Some f" and "readError e = None"
    and "analyses s = analyses rendered"
  shows "analyses (fst (handleAnalyze_after_await e rendered s)) = newAnalysis e f # analyses s
    \<and> length (analyses (fst (handleAnalyze_after_await e rendered s)))
        = Suc (length (analyses s))
    \<and> tl (analyses (fst (handleAnalyze_after_await e rendered s))) = analyses s
    \<and> analyses (fst (handleAnalyze e rendered)) = newAnalysis e f # analyses rendered
    \<and> length (analyses (fst (handleAnalyze e rendered))) = Suc (length (analyses rendered))
    \<and> tl (analyses (fst (handleAnalyze e rendered))) = analyses rendered"
proof -
  from assms have "analyses (fst (handleAnalyze_after_await e rendered s))
      = newAnalysis e f # analyses s"
    by (simp add: handleAnalyze_after_await_def)
  moreover from assms(1,2) have "analyses (fst (handleAnalyze e rendered))
      = newAnalysis e f # analyses rendered"
    by (simp add: handleAnalyze_success)
  ultimately show ?thesis by simp
qed

theorem handleAnalyze_prepends_witness:
  "uploadedFile one_record = Some abc_file
   \<and> readError (clock_env 1762074000250) = None
   \<and> analyses (handleRemove (handleAnalyze_before_await one_record one_record))
       = analyses one_record
   \<and> analyses one_record = [newAnalysis (clock_env 1762074000000) abc_file]
   \<and> analyses (fst (handleAnalyze_after_await (clock_env 1762074000250) one_record
         (handleRemove (handleAnalyze_before_await one_record one_record))))
       = [newAnalysis (clock_env 1762074000250) abc_file,
          newAnalysis (clock_env 1762074000000) abc_file]
   \<and> analyses (fst (handleAnalyze (clock_env 1762074000250) one_record))
       = [newAnalysis (clock_env 1762074000250) abc_file,
          newAnalysis (clock_env 1762074000000) abc_file]"
proof -
  have held: "uploadedFile one_record = Some abc_file"
    by (simp add: one_record_state)
  have ok: "readError (clock_env 1762074000250) = None"
    by (simp add: clock_env_def)
  have same: "analyses (handleRemove (handleAnalyze_before_await one_record one_record))
      = analyses one_record"
    by (simp add: handleRemove_def handleAnalyze_before_await_def one_record_state)
  have hist: "analyses one_record = [newAnalysis (clock_env 1762074000000) abc_file]"
    by (simp add: one_record_state)
  from handleAnalyze_prepends [OF held ok same] held ok same hist show ?thesis
    by simp
qed

subsection \<open>C4: the text export\<close>

text \<open>
  Claim C4: for every selected record \<open>r\<close>, \<open>handleExportTXT\<close> offers one download,
  named after the record's file name followed by \<open>_analysis.txt\<close>, of type
  \<open>text/plain\<close>, whose content is the record's summary text as it is.
\<close>

theorem handleExportTXT_download:
  assumes "selectedAnalysis s = Some r"
  shows "handleExportTXT s =
    [Download (filename r @ ''_analysis.txt'')
       \<lparr>blob_parts = content r, blob_type = ''text/plain''\<rparr>]"
  using assms by (simp add: handleExportTXT_def)

theorem handleExportTXT_download_witness:
  "selectedAnalysis (fst (handleAnalyze (clock_env 1762074000000) (holding abc_file)))
     = Some (newAnalysis (clock_env 1762074000000) abc_file)
   \<and> handleExportTXT (fst (handleAnalyze (clock_env 1762074000000) (holding abc_file))) =
     [Download ''act.txt_analysis.txt''
        \<lparr>blob_parts = summary_reporting ''act.txt'' 3 1, blob_type = ''text/plain''\<rparr>]"
proof -
  have sel: "selectedAnalysis (fst (handleAnalyze (clock_env 1762074000000) (holding abc_file)))
     = Some (newAnalysis (clock_env 1762074000000) abc_file)"
    by (simp add: handleAnalyze_run Let_def holding_def clock_env_def)
  from handleExportTXT_download [OF sel] sel show ?thesis
    by (simp add: newAnalysis_def mockAnalysis_counts abc_file_def numeral_3_eq_3)
qed

subsection \<open>C5: the text \<open>a b c\<close>\<close>

text \<open>
  Claim C5: running \<open>handleAnalyze\<close> on a file whose content is \<open>a b c\<close> produces a
  summary that reports a word count of 3 and a line count of 1.
\<close>

theorem handleAnalyze_a_b_c:
  assumes "uploadedFile s = Some f" and "text_content f = ''a b c''" and "readError e = None"
  shows "selectedAnalysis (fst (handleAnalyze e s)) = Some (newAnalysis e f)
    \<and> analyses (fst (handleAnalyze e s)) = newAnalysis e f # analyses s
    \<and> content (newAnalysis e f) = summary_reporting (name f) 3 1"
  using assms
  by (simp add: handleAnalyze_success newAnalysis_def mockAnalysis_counts numeral_3_eq_3)

theorem handleAnalyze_a_b_c_witness:
  "uploadedFile (holding abc_file) = Some abc_file
   \<and> text_content abc_file = ''a b c''
   \<and> readError (clock_env 1762074000000) = None
   \<and> map content (analyses (fst (handleAnalyze (clock_env 1762074000000) (holding abc_file))))
       = [''Analysis of act.txt:\<newline>\<newline>This legislative act contains 3 words and 1 lines.\<newline>\<newline>Key sections identified:\<newline>- Preamble\<newline>- Main provisions\<newline>- Enforcement clauses\<newline>\<newline>Summary: This document outlines legislative provisions...'']"
proof -
  have held: "uploadedFile (holding abc_file) = Some abc_file"
    by (simp add: holding_def)
  have body: "text_content abc_file = ''a b c''"
    by (simp add: abc_file_def)
  have ok: "readError (clock_env 1762074000000) = None"
    by (simp add: clock_env_def)
  have nm: "name abc_file = ''act.txt''"
    by (simp add: abc_file_def)
  have hist: "analyses (holding abc_file) = []"
    by (simp add: holding_def initial_state_def)
  from handleAnalyze_a_b_c [OF held body ok] held body ok show ?thesis
    by (simp add: nm hist summary_reporting_def toString_eval)
qed

subsection \<open>C6: no file held\<close>

text \<open>
  Claim C6: invoking \<open>handleAnalyze\<close> when no file is held does nothing: the history, the
  selected record and the in-progress flag are unchanged (as is the rest of the state),
  and nothing is logged.
\<close>

theorem handleAnalyze_no_file:
  assumes "uploadedFile s = None"
  shows "handleAnalyze e s = (s, [])"
  using assms by (simp add: handleAnalyze_run)

theorem handleAnalyze_no_file_witness:
  "uploadedFile initial_state = None
   \<and> handleAnalyze (clock_env 1762074000000) initial_state = (initial_state, [])"
proof -
  have none: "uploadedFile initial_state = None"
    by (simp add: initial_state_def)
  from handleAnalyze_no_file [OF none] none show ?thesis
    by simp
qed

subsection \<open>C7: identifiers within a session\<close>

text \<open>
  Claim C7: across every sequence of analysis runs of a session the identifiers of the
  records in the history are pairwise distinct. The page relies on this: the identifier is
  the React key of the history entry (line 223) and decides which entry is shown as
  selected (line 226). The code does not ensure it. The identifier is the clock reading of
  the run (line 54) and nothing else, so two runs, one after the other, that read the
  same millisecond leave two records with one identifier in the history.
\<close>

theorem handleAnalyze_same_clock_ids:
  "map id' (analyses (fst (handleAnalyze (clock_env 1762074000000)
      (fst (handleAnalyze (clock_env 1762074000000)
        (handleFileUpload (Some abc_file) initial_state))))))
     = [''1762074000000'', ''1762074000000'']
   \<and> \<not> distinct (map id' (analyses (fst (handleAnalyze (clock_env 1762074000000)
      (fst (handleAnalyze (clock_env 1762074000000)
        (handleFileUpload (Some abc_file) initial_state)))))))"
  by (simp add: handleFileUpload_def handleAnalyze_run Let_def newAnalysis_def
      initial_state_def clock_env_def toString_eval)

subsection \<open>C8: upload, then remove\<close>

text \<open>
  Claim C8: for every state in which the page offers the file input and every file \<open>f\<close>,
  \<open>handleFileUpload\<close> with \<open>f\<close> followed by \<open>handleRemove\<close> is the identity on the
  state: the held-file reference is empty again, and the history, the selection and the
  in-progress flag are as they were. The page offers the input exactly in the states
  that hold no file (line 110). The parts of the statement that do not depend on the
  starting state holding no file are stated for every state.
\<close>

theorem upload_remove_round_trip:
  "handleRemove (handleFileUpload (Some f) s) = s\<lparr>uploadedFile := None\<rparr>
   \<and> uploadedFile (handleRemove (handleFileUpload (Some f) s)) = None
   \<and> analyses (handleRemove (handleFileUpload (Some f) s)) = analyses s
   \<and> selectedAnalysis (handleRemove (handleFileUpload (Some f) s)) = selectedAnalysis s
   \<and> isAnalyzing (handleRemove (handleFileUpload (Some f) s)) = isAnalyzing s
   \<and> (upload_offered s \<longrightarrow> handleRemove (handleFileUpload (Some f) s) = s)"
  by (simp add: handleRemove_def handleFileUpload_def upload_offered_def)

theorem upload_remove_round_trip_witness:
  "upload_offered initial_state
   \<and> handleFileUpload (Some abc_file) initial_state = holding abc_file
   \<and> handleRemove (handleFileUpload (Some abc_file) initial_state) = initial_state"
proof -
  have none: "upload_offered initial_state"
    by (simp add: upload_offered_def initial_state_def)
  have up: "handleFileUpload (Some abc_file) initial_state = holding abc_file"
    by (simp add: handleFileUpload_def holding_def)
  from upload_remove_round_trip [of abc_file initial_state] none
  have "handleRemove (handleFileUpload (Some abc_file) initial_state) = initial_state"
    by blast
  with none up show ?thesis
    by blast
qed

subsection \<open>C9: the empty text\<close>

text \<open>
  Claim C9: for a held file whose content is the empty string, the summary reports a word
  count of 1 and a line count of 1, since splitting the empty string gives one empty
  segment.
\<close>

theorem handleAnalyze_empty_content:
  assumes "uploadedFile s = Some f" and "text_content f = []" and "readError e = None"
  shows "selectedAnalysis (fst (handleAnalyze e s)) = Some (newAnalysis e f)
    \<and> analyses (fst (handleAnalyze e s)) = newAnalysis e f # analyses s
    \<and> content (newAnalysis e f) = summary_reporting (name f) 1 1
    \<and> split (text_content f) '' '' = [[]]
    \<and> split (text_content f) ''\<newline>'' = [[]]"
  using assms
  by (simp add: handleAnalyze_success newAnalysis_def mockAnalysis_counts split_def)

theorem handleAnalyze_empty_content_witness:
  "uploadedFile (holding empty_file) = Some empty_file
   \<and> text_content empty_file = []
   \<and> readError (clock_env 1762074000000) = None
   \<and> map content (analyses (fst (handleAnalyze (clock_env 1762074000000) (holding empty_file))))
       = [''Analysis of empty.txt:\<newline>\<newline>This legislative act contains 1 words and 1 lines.\<newline>\<newline>Key sections identified:\<newline>- Preamble\<newline>- Main provisions\<newline>- Enforcement clauses\<newline>\<newline>Summary: This document outlines legislative provisions...'']"
proof -
  have held: "uploadedFile (holding empty_file) = Some empty_file"
    by (simp add: holding_def)
  have body: "text_content empty_file = []"
    by (simp add: empty_file_def)
  have ok: "readError (clock_env 1762074000000) = None"
    by (simp add: clock_env_def)
  have nm: "name empty_file = ''empty.txt''"
    by (simp add: empty_file_def)
  have hist: "analyses (holding empty_file) = []"
    by (simp add: holding_def initial_state_def)
  from handleAnalyze_empty_content [OF held body ok] held body ok show ?thesis
    by (simp add: nm hist summary_reporting_def toString_eval)
qed

subsection \<open>C10: the file stays held\<close>

text \<open>
  Claim C10: a successful run of \<open>handleAnalyze\<close> leaves the held file as it is, so a
  second run on it, when its read succeeds as well, puts a second record in front of the
  first, with the same file name and the same summary text.
\<close>

theorem handleAnalyze_twice:
  assumes "uploadedFile s = Some f" and "readError e1 = None" and "readError e2 = None"
  shows "uploadedFile (fst (handleAnalyze e1 s)) = uploadedFile s
    \<and> analyses (fst (handleAnalyze e1 s)) = newAnalysis e1 f # analyses s
    \<and> analyses (fst (handleAnalyze e2 (fst (handleAnalyze e1 s))))
        = newAnalysis e2 f # newAnalysis e1 f # analyses s
    \<and> filename (newAnalysis e2 f) = filename (newAnalysis e1 f)
    \<and> content (newAnalysis e2 f) = content (newAnalysis e1 f)"
proof -
  let ?s1 = "fst (handleAnalyze e1 s)"
  from assms have s1: "?s1 = s\<lparr>analyses := newAnalysis e1 f # analyses s,
      selectedAnalysis := Some (newAnalysis e1 f), isAnalyzing := False\<rparr>"
    by (simp add: handleAnalyze_success)
  then have held: "uploadedFile ?s1 = Some f"
    using assms(1) by simp
  from handleAnalyze_success [OF held assms(3)] s1
  have "analyses (fst (handleAnalyze e2 ?s1)) = newAnalysis e2 f # newAnalysis e1 f # analyses s"
    by simp
  with s1 assms(1) show ?thesis
    by (simp add: newAnalysis_def)
qed

theorem handleAnalyze_twice_witness:
  "uploadedFile (holding abc_file) = Some abc_file
   \<and> readError (clock_env 1762074000000) = None
   \<and> readError (clock_env 1762074000250) = None
   \<and> uploadedFile (fst (handleAnalyze (clock_env 1762074000000) (holding abc_file)))
       = Some abc_file
   \<and> map filename (analyses (fst (handleAnalyze (clock_env 1762074000250)
         (fst (handleAnalyze (clock_env 1762074000000) (holding abc_file))))))
       = [''act.txt'', ''act.txt'']
   \<and> map content (analyses (fst (handleAnalyze (clock_env 1762074000250)
         (fst (handleAnalyze (clock_env 1762074000000) (holding abc_file))))))
       = [summary_reporting ''act.txt'' 3 1, summary_reporting ''act.txt'' 3 1]"
proof -
  have held: "uploadedFile (holding abc_file) = Some abc_file"
    by (simp add: holding_def)
  have ok1: "readError (clock_env 1762074000000) = None"
    by (simp add: clock_env_def)
  have ok2: "readError (clock_env 1762074000250) = None"
    by (simp add: clock_env_def)
  have hist: "analyses (holding abc_file) = []"
    by (simp add: holding_def initial_state_def)
  have rec: "filename (newAnalysis e abc_file) = ''act.txt''
      \<and> content (newAnalysis e abc_file) = summary_reporting ''act.txt'' 3 1" for e
    by (simp add: newAnalysis_def mockAnalysis_counts abc_file_def numeral_3_eq_3)
  from handleAnalyze_twice [OF held ok1 ok2] held ok1 ok2 show ?thesis
    by (simp add: hist rec)
qed

end
